theory Spec2Isabelle
  imports Complex_Main
begin

section \<open>JavaScript values\<close>

text \<open>
  The flows of \<^verbatim>\<open>contract-interact.ts\<close> take parameters typed \<^verbatim>\<open>any\<close> and test
  them for truthiness. A number is a double: the finite ones are rationals, and the three
  special values are kept apart. Strings are byte lists.
\<close>

datatype jsnum = NaN | NegInfinity | Finite rat | PosInfinity

datatype jsvalue =
    JUndefined
  | JNull
  | JBool bool
  | JNum jsnum
  | JStr string
  | JArr "jsvalue list"
  | JObj "(string \<times> jsvalue) list"

text \<open>ToBoolean: \<^verbatim>\<open>undefined\<close>, \<^verbatim>\<open>null\<close>, \<^verbatim>\<open>false\<close>, \<^verbatim>\<open>0\<close>, \<^verbatim>\<open>NaN\<close> and
  \<^verbatim>\<open>""\<close> are falsy; every object and array is truthy, the empty object included.\<close>

fun truthy :: "jsvalue \<Rightarrow> bool" where
  "truthy JUndefined = False"
| "truthy JNull = False"
| "truthy (JBool b) = b"
| "truthy (JNum n) = (n \<noteq> NaN \<and> n \<noteq> Finite 0)"
| "truthy (JStr s) = (s \<noteq> [])"
| "truthy (JArr xs) = True"
| "truthy (JObj fs) = True"

text \<open>The comparison \<^verbatim>\<open>x > 0\<close> on a number.\<close>

fun gt_zero :: "jsnum \<Rightarrow> bool" where
  "gt_zero NaN = False"
| "gt_zero NegInfinity = False"
| "gt_zero (Finite r) = (0 < r)"
| "gt_zero PosInfinity = True"

text \<open>A parameter declared \<^verbatim>\<open>p: any = {}\<close>: an omitted (\<^verbatim>\<open>undefined\<close>) argument
  becomes the empty object; every other argument, \<^verbatim>\<open>null\<close> included, is kept.\<close>

definition default_obj :: "jsvalue \<Rightarrow> jsvalue" where
  "default_obj v = (if v = JUndefined then JObj [] else v)"

text \<open>\<^verbatim>\<open>s.slice(-n)\<close>: the last \<open>n\<close> characters, the whole string when it is shorter.\<close>

definition slice_last :: "nat \<Rightarrow> string \<Rightarrow> string" where
  "slice_last n s = drop (length s - n) s"

section \<open>Ledger data\<close>

datatype wallet = UseWallet | JWK string

type_synonym tag = "string \<times> string"

text \<open>The fields of the ledger client's \<^verbatim>\<open>Transaction\<close> that this code reads or sets;
  \<open>tx_data\<close> is the decoded payload, \<^verbatim>\<open>tx.get('data', {decode: true, string: true})\<close>.\<close>

record transaction =
  tx_id :: string
  tx_target :: string
  tx_quantity :: string
  tx_reward :: string
  tx_data :: string
  tx_tags :: "tag list"

text \<open>\<^verbatim>\<open>Partial<CreateTransactionInterface>\<close>: an absent property is \<open>None\<close>.\<close>

record tx_options =
  opt_data :: "string option"
  opt_target :: "string option"
  opt_quantity :: "string option"

text \<open>\<^verbatim>\<open>Transaction.addTag\<close> appends one name/value pair.\<close>

definition addTag :: "transaction \<Rightarrow> string \<Rightarrow> string \<Rightarrow> transaction" where
  "addTag t n v = t\<lparr>tx_tags := tx_tags t @ [(n, v)]\<rparr>"

text \<open>Modelled from the spec: \<^verbatim>\<open>getTag\<close> of \<^verbatim>\<open>./utils\<close> (the Tag Codec, not among the
  sources) extracts the value attached to a tag name. \<^verbatim>\<open>loadContract\<close> tests its result
  for truthiness, so a missing tag yields a falsy value, here \<^verbatim>\<open>false\<close>; of several tags
  with one name the first is taken.\<close>

definition getTag :: "transaction \<Rightarrow> string \<Rightarrow> jsvalue" where
  "getTag t n = (case map_of (tx_tags t) n of None \<Rightarrow> JBool False | Some v \<Rightarrow> JStr v)"

text \<open>Modelled from the spec: \<^verbatim>\<open>unpackTags\<close> of \<^verbatim>\<open>./utils\<close> decodes the tags of a
  transaction into its name/value pairs.\<close>

definition unpackTags :: "transaction \<Rightarrow> tag list" where
  "unpackTags t = tx_tags t"

text \<open>\<^verbatim>\<open>InteractionTx\<close>, the description of the transaction causing an invocation. The
  block timestamp of a dry run is \<^verbatim>\<open>null\<close>.\<close>

record interaction_tx =
  itx_id :: string
  itx_owner_address :: jsvalue
  itx_recipient :: string
  itx_tags :: "tag list"
  itx_fee_winston :: string
  itx_quantity_winston :: string
  itx_block_height :: int
  itx_block_id :: string
  itx_block_timestamp :: "int option"

text \<open>Modelled from the spec: \<^verbatim>\<open>SmartWeaveGlobal\<close> (\<^verbatim>\<open>./smartweave-global\<close>, not among the
  sources) is the execution context exposed to contract code: the contract id it was built
  for and the single active-transaction slot \<^verbatim>\<open>_activeTx\<close>, empty until a flow fills it.\<close>

record sw_global =
  sw_contract_id :: string
  sw_activeTx :: "interaction_tx option"

text \<open>The callable that evaluating a wrapped contract source returns, named by what the
  environment makes of that source.\<close>

datatype handler = Handler string

record contract_info =
  ci_id :: string
  ci_contractSrc :: string
  ci_initState :: jsvalue
  ci_minFee :: jsvalue
  ci_contractTX :: transaction
  ci_handler :: handler
  ci_swGlobal :: sw_global

text \<open>\<^verbatim>\<open>ContractInteraction\<close> and \<^verbatim>\<open>ContractInteractionResult\<close> of \<^verbatim>\<open>./contract-step\<close>.\<close>

record contract_interaction =
  in_input :: jsvalue
  in_caller :: jsvalue

record contract_interaction_result =
  res_type :: string
  res_result :: jsvalue
  res_state :: jsvalue

text \<open>The argument \<^verbatim>\<open>contractInfoParam: any = {}\<close>: omitted, \<^verbatim>\<open>null\<close>, the empty
  object, or a record that \<^verbatim>\<open>loadContract\<close> returned.\<close>

datatype any_contract = AnyUndefined | AnyNull | AnyEmptyObj | AnyContract contract_info

fun truthy_contract :: "any_contract \<Rightarrow> bool" where
  "truthy_contract AnyUndefined = False"
| "truthy_contract AnyNull = False"
| "truthy_contract AnyEmptyObj = True"
| "truthy_contract (AnyContract c) = True"

definition default_contract :: "any_contract \<Rightarrow> any_contract" where
  "default_contract c = (if c = AnyUndefined then AnyEmptyObj else c)"

section \<open>Errors, events and the environment\<close>

text \<open>An error raised by a collaborator is wrapped in \<open>External\<close>; the two others are raised
  by the code of the flows: the \<^verbatim>\<open>Error\<close> that \<^verbatim>\<open>createTx\<close> throws on a falsy input
  (the spec's \<open>InvalidInputError\<close>), with its message, and the \<^verbatim>\<open>TypeError\<close> of a
  property access on \<^verbatim>\<open>undefined\<close>.\<close>

datatype ext_error = ExtError string

datatype error = InvalidInputError string | TypeError string | External ext_error

text \<open>Every call that the flows make on the ledger client or on a collaborator, in order.\<close>

datatype event =
    EvGet jsvalue
  | EvCreateTransaction tx_options "wallet option"
  | EvSign transaction "wallet option"
  | EvPost transaction
  | EvGetAddress wallet
  | EvGetInfo
  | EvReadContract string
  | EvNewFunction string sw_global
  | EvExecute handler sw_global contract_interaction jsvalue

text \<open>
  The ledger client (\<^verbatim>\<open>arweave\<close>), the collaborators \<^verbatim>\<open>readContract\<close> and
  \<^verbatim>\<open>execute\<close>, and the host's built-ins, as the answers they give. \<open>env_execute\<close> also
  receives the execution context the handler closes over, as it is at the call.
  \<open>env_random\<close> is the string \<^verbatim>\<open>Math.random().toString()\<close> of the one draw that a flow
  makes, \<open>env_toNumber\<close> the unary \<^verbatim>\<open>+\<close> on a string, \<open>env_newFunction\<close> the
  construction and first call of \<^verbatim>\<open>new Function(src)\<close>.
\<close>

record env =
  env_get :: "jsvalue \<Rightarrow> ext_error + transaction"
  env_createTransaction :: "tx_options \<Rightarrow> wallet option \<Rightarrow> ext_error + transaction"
  env_sign :: "transaction \<Rightarrow> wallet option \<Rightarrow> ext_error + transaction"
  env_post :: "transaction \<Rightarrow> ext_error + int"
  env_getAddress :: "wallet \<Rightarrow> ext_error + string"
  env_getInfo :: "ext_error + (int \<times> string)"
  env_readContract :: "string \<Rightarrow> ext_error + jsvalue"
  env_execute :: "handler \<Rightarrow> sw_global \<Rightarrow> contract_interaction \<Rightarrow> jsvalue
                    \<Rightarrow> ext_error + contract_interaction_result"
  env_newFunction :: "string \<Rightarrow> sw_global \<Rightarrow> ext_error + handler"
  env_random :: string
  env_stringify :: "jsvalue \<Rightarrow> string"
  env_toNumber :: "string \<Rightarrow> jsnum"

text \<open>An asynchronous computation: its outcome and the calls it made.\<close>

type_synonym 'a io = "(error + 'a) \<times> event list"

definition io_return :: "'a \<Rightarrow> 'a io" where
  "io_return a = (Inr a, [])"

definition io_throw :: "error \<Rightarrow> 'a io" where
  "io_throw e = (Inl e, [])"

definition io_call :: "event \<Rightarrow> ext_error + 'a \<Rightarrow> 'a io" where
  "io_call ev r = (case r of Inl e \<Rightarrow> (Inl (External e), [ev]) | Inr a \<Rightarrow> (Inr a, [ev]))"

definition io_bind :: "'a io \<Rightarrow> ('a \<Rightarrow> 'b io) \<Rightarrow> 'b io" where
  "io_bind m f =
     (case m of
        (Inl e, tr) \<Rightarrow> (Inl e, tr)
      | (Inr a, tr) \<Rightarrow> (case f a of (r, tr') \<Rightarrow> (r, tr @ tr')))"

section \<open>The sandboxed execution environment and the contract loader\<close>

text \<open>
  The two \<^verbatim>\<open>replace\<close> calls of \<^verbatim>\<open>createContractExecutionEnvironment\<close> use the patterns
  \<^verbatim>\<open>/export\s+async\s+function\s+handle/gmu\<close> and \<^verbatim>\<open>/export\s+function\s+handle/gmu\<close>:
  fixed words separated by one or more white-space characters, every match replaced, from
  left to right. Each word starts with a character that is not white space, so the greedy
  \<^verbatim>\<open>\s+\<close> has only one way to match. A string is the list of the bytes of its UTF-8
  text, so a white-space character of \<^verbatim>\<open>\s\<close> is one of the byte sequences below: tab,
  line feed, vertical tab, form feed, carriage return, space, U+00A0, U+1680, U+2000 to
  U+200A, U+2028, U+2029, U+202F, U+205F, U+3000 and U+FEFF.
\<close>

definition space_encodings :: "string list" where
  "space_encodings =
     [[CHR 0x09], [CHR 0x0A], [CHR 0x0B], [CHR 0x0C], [CHR 0x0D], [CHR 0x20],
      [CHR 0xC2, CHR 0xA0],
      [CHR 0xE1, CHR 0x9A, CHR 0x80],
      [CHR 0xE2, CHR 0x80, CHR 0x80], [CHR 0xE2, CHR 0x80, CHR 0x81],
      [CHR 0xE2, CHR 0x80, CHR 0x82], [CHR 0xE2, CHR 0x80, CHR 0x83],
      [CHR 0xE2, CHR 0x80, CHR 0x84], [CHR 0xE2, CHR 0x80, CHR 0x85],
      [CHR 0xE2, CHR 0x80, CHR 0x86], [CHR 0xE2, CHR 0x80, CHR 0x87],
      [CHR 0xE2, CHR 0x80, CHR 0x88], [CHR 0xE2, CHR 0x80, CHR 0x89],
      [CHR 0xE2, CHR 0x80, CHR 0x8A],
      [CHR 0xE2, CHR 0x80, CHR 0xA8], [CHR 0xE2, CHR 0x80, CHR 0xA9],
      [CHR 0xE2, CHR 0x80, CHR 0xAF],
      [CHR 0xE2, CHR 0x81, CHR 0x9F],
      [CHR 0xE3, CHR 0x80, CHR 0x80],
      [CHR 0xEF, CHR 0xBB, CHR 0xBF]]"

fun match_lit :: "string \<Rightarrow> string \<Rightarrow> string option" where
  "match_lit [] s = Some s"
| "match_lit (c # cs) [] = None"
| "match_lit (c # cs) (d # ds) = (if c = d then match_lit cs ds else None)"

text \<open>One white-space character taken off the front, if there is one.\<close>

fun strip_first :: "string list \<Rightarrow> string \<Rightarrow> string option" where
  "strip_first [] s = None"
| "strip_first (e # es) s =
     (case match_lit e s of Some r \<Rightarrow> Some r | None \<Rightarrow> strip_first es s)"

definition strip_space :: "string \<Rightarrow> string option" where
  "strip_space s = strip_first space_encodings s"

text \<open>At most \<open>n\<close> white-space characters taken off the front; a string has no more of
  them than it has bytes, so \<open>length s\<close> of them is all.\<close>

fun strip_spaces :: "nat \<Rightarrow> string \<Rightarrow> string" where
  "strip_spaces 0 s = s"
| "strip_spaces (Suc n) s =
     (case strip_space s of None \<Rightarrow> s | Some r \<Rightarrow> strip_spaces n r)"

definition match_spaces :: "string \<Rightarrow> string option" where
  "match_spaces s =
     (case strip_space s of
        None \<Rightarrow> None
      | Some r \<Rightarrow> Some (strip_spaces (length r) r))"

fun match_words :: "string list \<Rightarrow> string \<Rightarrow> string option" where
  "match_words [] s = Some s"
| "match_words [w] s = match_lit w s"
| "match_words (w # ws) s =
     (case match_lit w s of
        None \<Rightarrow> None
      | Some r \<Rightarrow> (case match_spaces r of None \<Rightarrow> None | Some r' \<Rightarrow> match_words ws r'))"

text \<open>\<open>replace_words ws rep k s\<close>: the first \<open>k\<close> characters of \<open>s\<close> belong to a match
  already replaced and are dropped; after them every match of the words is replaced.\<close>

fun replace_words :: "string list \<Rightarrow> string \<Rightarrow> nat \<Rightarrow> string \<Rightarrow> string" where
  "replace_words ws rep k [] = []"
| "replace_words ws rep (Suc k) (c # cs) = replace_words ws rep k cs"
| "replace_words ws rep 0 (c # cs) =
     (case match_words ws (c # cs) of
        Some rest \<Rightarrow> rep @ replace_words ws rep (length cs - length rest) cs
      | None \<Rightarrow> c # replace_words ws rep 0 cs)"

definition normalize_src :: "string \<Rightarrow> string" where
  "normalize_src contractSrc =
     replace_words [''export'', ''function'', ''handle''] ''function handle'' 0
       (replace_words [''export'', ''async'', ''function'', ''handle'']
          ''async function handle'' 0 contractSrc)"

text \<open>The template literal \<^verbatim>\<open>returningSrc\<close>, line by line.\<close>

definition returningSrc :: "string \<Rightarrow> string" where
  "returningSrc contractSrc =
     [CHR 0x0A] @ ''    const [SmartWeave, BigNumber, clarity] = arguments;''
   @ [CHR 0x0A] @ ''    clarity.SmartWeave = SmartWeave;''
   @ [CHR 0x0A] @ ''    class ContractError extends Error { constructor(message) { super(message); this.name = ''
                @ [CHR 0x27] @ ''ContractError'' @ [CHR 0x27] @ '' } };''
   @ [CHR 0x0A] @ ''    function ContractAssert(cond, message) { if (!cond) throw new ContractError(message) };''
   @ [CHR 0x0A] @ ''    '' @ contractSrc @ '';''
   @ [CHR 0x0A] @ ''    return handle;''
   @ [CHR 0x0A] @ ''  ''"

text \<open>The helper that the wrapper declares for contract code,
  \<^verbatim>\<open>function ContractAssert(cond, message) { if (!cond) throw new ContractError(message) }\<close>:
  \<open>Inl\<close> is the thrown \<^verbatim>\<open>ContractError\<close> with the message that \<^verbatim>\<open>super(message)\<close>
  leaves on it: the empty string for \<^verbatim>\<open>undefined\<close>, and the host's conversion to a
  string, a parameter here, for every other value.\<close>

datatype contract_error = ContractError string

definition ContractAssert ::
    "(jsvalue \<Rightarrow> string) \<Rightarrow> jsvalue \<Rightarrow> jsvalue \<Rightarrow> contract_error + unit" where
  "ContractAssert toString cond message =
     (if \<not> truthy cond
      then Inl (ContractError (if message = JUndefined then [] else toString message))
      else Inr ())"

definition createContractExecutionEnvironment ::
    "env \<Rightarrow> string \<Rightarrow> string \<Rightarrow> (handler \<times> sw_global) io" where
  "createContractExecutionEnvironment E contractSrc contractId =
     (let src = returningSrc (normalize_src contractSrc);
          swGlobal = \<lparr>sw_contract_id = contractId, sw_activeTx = None\<rparr>
      in io_bind (io_call (EvNewFunction src swGlobal) (env_newFunction E src swGlobal))
           (\<lambda>h. io_return (h, swGlobal)))"

definition loadContract :: "env \<Rightarrow> string \<Rightarrow> contract_info io" where
  "loadContract E contractID =
     io_bind (io_call (EvGet (JStr contractID)) (env_get E (JStr contractID))) (\<lambda>contractTX.
     let contractSrcTXID = getTag contractTX ''Contract-Src'';
         minFee = getTag contractTX ''Min-Fee''
     in
     io_bind (io_call (EvGet contractSrcTXID) (env_get E contractSrcTXID)) (\<lambda>contractSrcTX.
     let contractSrc = tx_data contractSrcTX in
     io_bind
       (if truthy (getTag contractTX ''Init-State'') then
          io_return (getTag contractTX ''Init-State'')
        else if truthy (getTag contractTX ''Init-State-TX'') then
          io_bind (io_call (EvGet (getTag contractTX ''Init-State-TX''))
                     (env_get E (getTag contractTX ''Init-State-TX'')))
            (\<lambda>stateTX. io_return (JStr (tx_data stateTX)))
        else io_return (JStr (tx_data contractTX))) (\<lambda>state.
     io_bind (createContractExecutionEnvironment E contractSrc contractID) (\<lambda>(h, swGlobal).
     io_return
       \<lparr>ci_id = contractID, ci_contractSrc = contractSrc, ci_initState = state,
        ci_minFee = minFee, ci_contractTX = contractTX, ci_handler = h,
        ci_swGlobal = swGlobal\<rparr>))))"

section \<open>The interaction-transaction builder\<close>

text \<open>
  \<^verbatim>\<open>createTx\<close>. The options are built first, the ledger client creates the transaction
  from them, and only then is the input tested. The caller's tags are added in their order,
  then the four fixed ones; signing mutates the transaction in place, so the transaction
  returned is the one the client's \<^verbatim>\<open>sign\<close> leaves behind.
\<close>

definition tx_options_of :: "env \<Rightarrow> string \<Rightarrow> string \<Rightarrow> tx_options" where
  "tx_options_of E target winstonQty =
     (let options = \<lparr>opt_data = Some (slice_last 4 (env_random E)),
                     opt_target = None, opt_quantity = None\<rparr>
      in if target \<noteq> [] then
           (let options1 = options\<lparr>opt_target := Some target\<rparr>
            in if winstonQty \<noteq> [] \<and> gt_zero (env_toNumber E winstonQty)
               then options1\<lparr>opt_quantity := Some winstonQty\<rparr>
               else options1)
         else options)"

definition add_tags :: "transaction \<Rightarrow> tag list \<Rightarrow> transaction" where
  "add_tags t tags = foldl (\<lambda>t' tag. addTag t' (fst tag) (snd tag)) t tags"

definition createTx ::
    "env \<Rightarrow> wallet option \<Rightarrow> string \<Rightarrow> jsvalue \<Rightarrow> tag list \<Rightarrow> string \<Rightarrow> string
       \<Rightarrow> transaction io" where
  "createTx E wallet contractId input tags target winstonQty =
     (let options = tx_options_of E target winstonQty in
      io_bind (io_call (EvCreateTransaction options wallet)
                 (env_createTransaction E options wallet)) (\<lambda>interactionTx.
      if \<not> truthy input then
        io_throw (InvalidInputError
                    (''Input should be a truthy value: '' @ env_stringify E input))
      else
        (let t1 = add_tags interactionTx tags;
             t2 = addTag t1 ''App-Name'' ''SmartWeaveAction'';
             t3 = addTag t2 ''App-Version'' ''0.3.0'';
             t4 = addTag t3 ''Contract'' contractId;
             t5 = addTag t4 ''Input'' (env_stringify E input)
         in io_call (EvSign t5 wallet) (env_sign E t5 wallet))))"

section \<open>The four flows\<close>

definition interactWrite ::
    "env \<Rightarrow> wallet \<Rightarrow> string \<Rightarrow> jsvalue \<Rightarrow> tag list \<Rightarrow> string \<Rightarrow> string
       \<Rightarrow> string option io" where
  "interactWrite E wallet contractId input tags target winstonQty =
     io_bind (createTx E (Some wallet) contractId input tags target winstonQty)
       (\<lambda>interactionTx.
     io_bind (io_call (EvPost interactionTx) (env_post E interactionTx)) (\<lambda>status.
     if status \<noteq> 200 then io_return None else io_return (Some (tx_id interactionTx))))"

text \<open>The object literal \<^verbatim>\<open>dummyActiveTx\<close>, written out the same way in three flows.\<close>

definition dummyActiveTx ::
    "transaction \<Rightarrow> jsvalue \<Rightarrow> int \<Rightarrow> string \<Rightarrow> interaction_tx" where
  "dummyActiveTx tx from height current =
     \<lparr>itx_id = tx_id tx, itx_owner_address = from, itx_recipient = tx_target tx,
      itx_tags = unpackTags tx, itx_fee_winston = tx_reward tx,
      itx_quantity_winston = tx_quantity tx, itx_block_height = height,
      itx_block_id = current, itx_block_timestamp = None\<rparr>"

text \<open>The assignment \<^verbatim>\<open>contractInfo.swGlobal._activeTx = dummyActiveTx\<close>. On a loaded
  record it fills the slot; on anything else \<^verbatim>\<open>contractInfo.swGlobal\<close> is
  \<^verbatim>\<open>undefined\<close> (or \<^verbatim>\<open>contractInfo\<close> itself is not an object) and the assignment throws.\<close>

definition set_activeTx :: "any_contract \<Rightarrow> interaction_tx \<Rightarrow> contract_info io" where
  "set_activeTx contractInfo atx =
     (case contractInfo of
        AnyContract c \<Rightarrow>
          io_return (c\<lparr>ci_swGlobal := (ci_swGlobal c)\<lparr>sw_activeTx := Some atx\<rparr>\<rparr>)
      | _ \<Rightarrow> io_throw (TypeError ''Cannot set properties of undefined (setting _activeTx)''))"

definition call_execute ::
    "env \<Rightarrow> contract_info \<Rightarrow> contract_interaction \<Rightarrow> jsvalue
       \<Rightarrow> contract_interaction_result io" where
  "call_execute E c interaction latestState =
     io_call (EvExecute (ci_handler c) (ci_swGlobal c) interaction latestState)
       (env_execute E (ci_handler c) (ci_swGlobal c) interaction latestState)"

definition interactWriteDryRun ::
    "env \<Rightarrow> wallet \<Rightarrow> string \<Rightarrow> jsvalue \<Rightarrow> tag list \<Rightarrow> string \<Rightarrow> string
       \<Rightarrow> jsvalue \<Rightarrow> jsvalue \<Rightarrow> any_contract \<Rightarrow> contract_interaction_result io" where
  "interactWriteDryRun E wallet contractId input tags target winstonQty
       myState0 fromParam0 contractInfoParam0 =
     (let myState = default_obj myState0;
          fromParam = default_obj fromParam0;
          contractInfoParam = default_contract contractInfoParam0
      in
      io_bind (if truthy_contract contractInfoParam then io_return contractInfoParam
               else io_bind (loadContract E contractId) (\<lambda>c. io_return (AnyContract c)))
        (\<lambda>contractInfo.
      io_bind (if truthy myState then io_return myState
               else io_call (EvReadContract contractId) (env_readContract E contractId))
        (\<lambda>latestState.
      io_bind (if truthy fromParam then io_return fromParam
               else io_bind (io_call (EvGetAddress wallet) (env_getAddress E wallet))
                      (\<lambda>a. io_return (JStr a)))
        (\<lambda>from.
      let interaction = \<lparr>in_input = input, in_caller = from\<rparr> in
      io_bind (io_call EvGetInfo (env_getInfo E)) (\<lambda>(height, current).
      io_bind (createTx E (Some wallet) contractId input tags target winstonQty) (\<lambda>tx.
      io_bind (set_activeTx contractInfo (dummyActiveTx tx from height current)) (\<lambda>c.
      call_execute E c interaction latestState)))))))"

text \<open>The custom flow receives the transaction already built; the call of \<^verbatim>\<open>createTx\<close>
  is commented out in the source, and the caller address is the argument as it is.\<close>

definition interactWriteDryRunCustom ::
    "env \<Rightarrow> transaction \<Rightarrow> string \<Rightarrow> jsvalue
       \<Rightarrow> jsvalue \<Rightarrow> jsvalue \<Rightarrow> any_contract \<Rightarrow> contract_interaction_result io" where
  "interactWriteDryRunCustom E tx contractId input myState0 fromParam0 contractInfoParam0 =
     (let myState = default_obj myState0;
          fromParam = default_obj fromParam0;
          contractInfoParam = default_contract contractInfoParam0
      in
      io_bind (if truthy_contract contractInfoParam then io_return contractInfoParam
               else io_bind (loadContract E contractId) (\<lambda>c. io_return (AnyContract c)))
        (\<lambda>contractInfo.
      io_bind (if truthy myState then io_return myState
               else io_call (EvReadContract contractId) (env_readContract E contractId))
        (\<lambda>latestState.
      let from = fromParam;
          interaction = \<lparr>in_input = input, in_caller = from\<rparr>
      in
      io_bind (io_call EvGetInfo (env_getInfo E)) (\<lambda>(height, current).
      io_bind (set_activeTx contractInfo (dummyActiveTx tx from height current)) (\<lambda>c.
      call_execute E c interaction latestState)))))"

text \<open>The read flow always loads and reads; its wallet may be \<^verbatim>\<open>undefined\<close>.\<close>

definition interactRead ::
    "env \<Rightarrow> wallet option \<Rightarrow> string \<Rightarrow> jsvalue \<Rightarrow> tag list \<Rightarrow> string \<Rightarrow> string
       \<Rightarrow> jsvalue io" where
  "interactRead E wallet contractId input tags target winstonQty =
     io_bind (loadContract E contractId) (\<lambda>contractInfo.
     io_bind (io_call (EvReadContract contractId) (env_readContract E contractId))
       (\<lambda>latestState.
     io_bind (case wallet of
                Some w \<Rightarrow> io_call (EvGetAddress w) (env_getAddress E w)
              | None \<Rightarrow> io_return [])
       (\<lambda>from.
     let interaction = \<lparr>in_input = input, in_caller = JStr from\<rparr> in
     io_bind (io_call EvGetInfo (env_getInfo E)) (\<lambda>(height, current).
     io_bind (createTx E wallet contractId input tags target winstonQty) (\<lambda>tx.
     io_bind (set_activeTx (AnyContract contractInfo)
                (dummyActiveTx tx (JStr from) height current)) (\<lambda>c.
     io_bind (call_execute E c interaction latestState) (\<lambda>result.
     io_return (res_result result))))))))"

section \<open>Observing a trace\<close>

fun is_post :: "event \<Rightarrow> bool" where
  "is_post (EvPost t) = True"
| "is_post ev = False"

fun is_getAddress :: "event \<Rightarrow> bool" where
  "is_getAddress (EvGetAddress w) = True"
| "is_getAddress ev = False"

fun is_createTransaction :: "event \<Rightarrow> bool" where
  "is_createTransaction (EvCreateTransaction opts w) = True"
| "is_createTransaction ev = False"

fun is_execute :: "event \<Rightarrow> bool" where
  "is_execute (EvExecute h g i s) = True"
| "is_execute ev = False"

text \<open>The calls by which a flow resolves a contract, a state or a caller address.\<close>

fun is_resolving :: "event \<Rightarrow> bool" where
  "is_resolving (EvGet i) = True"
| "is_resolving (EvNewFunction src g) = True"
| "is_resolving (EvReadContract c) = True"
| "is_resolving (EvGetAddress w) = True"
| "is_resolving ev = False"


section \<open>A ledger client stub\<close>

text \<open>
  A small deterministic environment on which the flows can be run: a ledger given as a list
  of transactions by id, a client that copies the options into the transaction it creates
  and whose signing sets the id from the payload, a submission that answers a fixed
  status, a handler execution that echoes the input as its result and keeps the state.
\<close>

definition mk_tx :: "string \<Rightarrow> string \<Rightarrow> tag list \<Rightarrow> transaction" where
  "mk_tx i d tags =
     \<lparr>tx_id = i, tx_target = [], tx_quantity = ''0'', tx_reward = ''0'', tx_data = d,
      tx_tags = tags\<rparr>"

fun stub_get :: "(string \<times> transaction) list \<Rightarrow> jsvalue \<Rightarrow> ext_error + transaction" where
  "stub_get ledger (JStr i) =
     (case map_of ledger i of None \<Rightarrow> Inl (ExtError ''not found'') | Some t \<Rightarrow> Inr t)"
| "stub_get ledger v = Inl (ExtError ''not found'')"

definition stub_createTransaction ::
    "tx_options \<Rightarrow> wallet option \<Rightarrow> ext_error + transaction" where
  "stub_createTransaction opts w =
     Inr \<lparr>tx_id = [],
          tx_target = (case opt_target opts of None \<Rightarrow> [] | Some t \<Rightarrow> t),
          tx_quantity = (case opt_quantity opts of None \<Rightarrow> ''0'' | Some q \<Rightarrow> q),
          tx_reward = ''0'',
          tx_data = (case opt_data opts of None \<Rightarrow> [] | Some d \<Rightarrow> d),
          tx_tags = []\<rparr>"

fun stub_stringify :: "jsvalue \<Rightarrow> string" where
  "stub_stringify JNull = ''null''"
| "stub_stringify (JStr s) = [CHR 0x22] @ s @ [CHR 0x22]"
| "stub_stringify v = ''{}''"

text \<open>The unary plus of the stub reads the empty string as 0 and a string of decimal
  digits as its value; everything else is \<open>NaN\<close>.\<close>

definition digit_val :: "char \<Rightarrow> nat option" where
  "digit_val c = map_of (zip ''0123456789'' [0 ..< 10]) c"

fun digits_val :: "nat \<Rightarrow> string \<Rightarrow> nat option" where
  "digits_val n [] = Some n"
| "digits_val n (c # cs) =
     (case digit_val c of None \<Rightarrow> None | Some d \<Rightarrow> digits_val (10 * n + d) cs)"

definition stub_toNumber :: "string \<Rightarrow> jsnum" where
  "stub_toNumber s = (case digits_val 0 s of None \<Rightarrow> NaN | Some n \<Rightarrow> Finite (of_nat n))"

definition stub_env :: "(string \<times> transaction) list \<Rightarrow> int \<Rightarrow> env" where
  "stub_env ledger status =
     \<lparr>env_get = stub_get ledger,
      env_createTransaction = stub_createTransaction,
      env_sign = (\<lambda>t w. Inr (t\<lparr>tx_id := ''id-'' @ tx_data t\<rparr>)),
      env_post = (\<lambda>t. Inr status),
      env_getAddress = (\<lambda>w. Inr ''address''),
      env_getInfo = Inr (7, ''block''),
      env_readContract = (\<lambda>c. Inr (JObj [(''counter'', JNum (Finite 0))])),
      env_execute = (\<lambda>h g i s. Inr \<lparr>res_type = ''ok'', res_result = in_input i, res_state = s\<rparr>),
      env_newFunction = (\<lambda>src g. Inr (Handler src)),
      env_random = ''0.8231947'',
      env_stringify = stub_stringify,
      env_toNumber = stub_toNumber\<rparr>"

text \<open>Five transactions: the contract source, a contract with an inline initial state,
  one whose initial state is the payload of another transaction, one whose initial state is
  its own payload, and one whose \<^verbatim>\<open>Init-State\<close> tag is empty.\<close>

definition stub_ledger :: "(string \<times> transaction) list" where
  "stub_ledger =
     [(''source'', mk_tx ''source'' ''export function handle(s, a) { return { state: s } }'' []),
      (''inline'', mk_tx ''inline'' ''own'' [(''Contract-Src'', ''source''), (''Init-State'', ''tagged'')]),
      (''byref'', mk_tx ''byref'' ''own'' [(''Contract-Src'', ''source''), (''Init-State-TX'', ''state'')]),
      (''state'', mk_tx ''state'' ''referenced'' []),
      (''payload'', mk_tx ''payload'' ''own'' [(''Contract-Src'', ''source'')]),
      (''empty'', mk_tx ''empty'' ''own'' [(''Contract-Src'', ''source''), (''Init-State'', [])])]"


text \<open>What the claim on target and quantity takes for granted of the ledger client: the
  transaction it creates has the target and the quantity of the options, and where an
  option is left out the defaults of the client's \<^verbatim>\<open>Transaction\<close>, the empty target and
  the quantity \<^verbatim>\<open>0\<close>; signing leaves both as they are.\<close>

definition copies_transfer :: "env \<Rightarrow> bool" where
  "copies_transfer E =
     ((\<forall>opts w t. env_createTransaction E opts w = Inr t
          \<longrightarrow> tx_target t = (case opt_target opts of None \<Rightarrow> [] | Some x \<Rightarrow> x)
            \<and> tx_quantity t = (case opt_quantity opts of None \<Rightarrow> ''0'' | Some q \<Rightarrow> q))
      \<and> (\<forall>t w t'. env_sign E t w = Inr t'
          \<longrightarrow> tx_target t' = tx_target t \<and> tx_quantity t' = tx_quantity t))"

text \<open>The record that \<open>loadContract\<close> returns for the contract \<^verbatim>\<open>inline\<close> of the stub
  ledger, to be passed to a dry run as a pre-loaded contract.\<close>

definition stub_contract :: contract_info where
  "stub_contract =
     \<lparr>ci_id = ''inline'',
      ci_contractSrc = ''export function handle(s, a) { return { state: s } }'',
      ci_initState = JStr ''tagged'',
      ci_minFee = JBool False,
      ci_contractTX = mk_tx ''inline'' ''own'' [(''Contract-Src'', ''source''), (''Init-State'', ''tagged'')],
      ci_handler = Handler (returningSrc ''function handle(s, a) { return { state: s } }''),
      ci_swGlobal = \<lparr>sw_contract_id = ''inline'', sw_activeTx = None\<rparr>\<rparr>"

section \<open>Sequencing and traces\<close>

lemma fst_io_bind:
  "fst (io_bind m f) = (case fst m of Inl e \<Rightarrow> Inl e | Inr a \<Rightarrow> fst (f a))"
  by (cases m) (auto simp: io_bind_def split: sum.splits prod.splits)

lemma snd_io_bind:
  "snd (io_bind m f) = (case fst m of Inl e \<Rightarrow> snd m | Inr a \<Rightarrow> snd m @ snd (f a))"
  by (cases m) (auto simp: io_bind_def split: sum.splits prod.splits)

lemma io_bind_Inl: "fst m = Inl e \<Longrightarrow> io_bind m f = (Inl e, snd m)"
  by (cases m) (simp add: io_bind_def)

lemma io_bind_Inr: "fst m = Inr a \<Longrightarrow> io_bind m f = (fst (f a), snd m @ snd (f a))"
  by (cases m) (simp add: io_bind_def split: prod.splits)

lemma io_call_Inr: "io_call ev (Inr a) = (Inr a, [ev])"
  by (simp add: io_call_def)

lemma io_call_Inl: "io_call ev (Inl e) = (Inl (External e), [ev])"
  by (simp add: io_call_def)

lemma snd_io_call: "snd (io_call ev r) = [ev]"
  by (simp add: io_call_def split: sum.splits)

lemma fst_io_call:
  "fst (io_call ev r) = (case r of Inl e \<Rightarrow> Inl (External e) | Inr a \<Rightarrow> Inr a)"
  by (simp add: io_call_def split: sum.splits)

section \<open>The dry runs never submit\<close>

lemma events_bind:
  assumes "list_all Q (snd m)" and "\<And>a. list_all Q (snd (f a))"
  shows "list_all Q (snd (io_bind m f))"
  using assms by (simp add: snd_io_bind split: sum.splits)

lemma events_call: "Q ev \<Longrightarrow> list_all Q (snd (io_call ev r))"
  by (simp add: snd_io_call)

lemma events_return: "list_all Q (snd (io_return a))"
  by (simp add: io_return_def)

lemma events_throw: "list_all Q (snd (io_throw e))"
  by (simp add: io_throw_def)

lemmas events_intros = events_bind events_call events_return events_throw

lemma events_createContractExecutionEnvironment:
  assumes "\<And>src g. Q (EvNewFunction src g)"
  shows "list_all Q (snd (createContractExecutionEnvironment E src cid))"
  unfolding createContractExecutionEnvironment_def Let_def
  by (intro events_intros assms)

lemma events_loadContract:
  assumes "\<And>src g. Q (EvNewFunction src g)" and "\<And>i. Q (EvGet i)"
  shows "list_all Q (snd (loadContract E cid))"
  unfolding loadContract_def Let_def
  by (intro events_intros events_createContractExecutionEnvironment assms conjI impI allI
      | simp split: prod.splits)+

lemma events_createTx:
  assumes "\<And>opts k. Q (EvCreateTransaction opts k)" and "\<And>t k. Q (EvSign t k)"
  shows "list_all Q (snd (createTx E w cid input tags target qty))"
  unfolding createTx_def Let_def
  by (intro events_intros assms conjI impI allI | simp split: prod.splits)+

lemma events_set_activeTx: "list_all Q (snd (set_activeTx c atx))"
  by (cases c) (simp_all add: set_activeTx_def events_return events_throw)

lemma events_call_execute:
  assumes "\<And>h g i s. Q (EvExecute h g i s)"
  shows "list_all Q (snd (call_execute E c i s))"
  by (simp add: call_execute_def events_call assms)

lemma no_post_interactWriteDryRun:
  "list_all (\<lambda>ev. \<not> is_post ev)
     (snd (interactWriteDryRun E wallet contractId input tags target winstonQty
             myState fromParam contractInfoParam))"
  unfolding interactWriteDryRun_def Let_def
  by (intro events_intros events_loadContract events_createTx events_set_activeTx
        events_call_execute conjI impI allI
      | simp split: prod.splits)+

lemma no_post_interactWriteDryRunCustom:
  "list_all (\<lambda>ev. \<not> is_post ev)
     (snd (interactWriteDryRunCustom E tx contractId input
             myState fromParam contractInfoParam))"
  unfolding interactWriteDryRunCustom_def Let_def
  by (intro events_intros events_loadContract events_set_activeTx
        events_call_execute conjI impI allI
      | simp split: prod.splits)+

lemma filter_empty_list_all: "list_all (\<lambda>x. \<not> P x) xs \<Longrightarrow> filter P xs = []"
  by (simp add: list_all_iff filter_empty_conv)

text \<open>
  C1. Neither dry-run flow ever calls the ledger client's submission operation: whatever
  the environment answers and whatever the arguments are, the trace of
  \<open>interactWriteDryRun\<close> and the trace of \<open>interactWriteDryRunCustom\<close> contain no
  \<open>EvPost\<close> event. The trace holds the calls made by the flows, the loader and the
  builder; what a collaborator does inside \<^verbatim>\<open>readContract\<close>, \<^verbatim>\<open>execute\<close> or the
  evaluation of the contract source is behind the environment.
\<close>

theorem dry_runs_never_post:
  "filter is_post
     (snd (interactWriteDryRun E wallet contractId input tags target winstonQty
             myState fromParam contractInfoParam)) = []
   \<and> filter is_post
       (snd (interactWriteDryRunCustom E tx contractId input
               myState fromParam contractInfoParam)) = []"
  by (simp add: filter_empty_list_all no_post_interactWriteDryRun
        no_post_interactWriteDryRunCustom)

theorem dry_runs_never_post_witness:
  "filter is_post
     (snd (interactWriteDryRun (stub_env stub_ledger 200) (JWK ''k'') ''inline'' (JStr ''x'')
             [(''X'', ''1'')] ''t'' ''5'' JNull JNull AnyNull)) = []
   \<and> filter is_post
       (snd (interactWriteDryRunCustom (stub_env stub_ledger 200) (mk_tx ''t'' [] []) ''inline''
               (JStr ''x'') JNull JNull AnyNull)) = []"
  by (rule dry_runs_never_post)

section \<open>The write flow\<close>

lemma createTx_falsy:
  assumes "\<not> truthy input"
  shows "createTx E w cid input tags target qty =
           ((case env_createTransaction E (tx_options_of E target qty) w of
               Inl e \<Rightarrow> Inl (External e)
             | Inr t \<Rightarrow> Inl (InvalidInputError
                            (''Input should be a truthy value: '' @ env_stringify E input))),
            [EvCreateTransaction (tx_options_of E target qty) w])"
  using assms
  by (simp add: createTx_def Let_def io_bind_def io_call_def io_throw_def split: sum.splits)

text \<open>
  C2 (as amended). A call of the write flow with a falsy input first has the ledger client
  create the transaction object. If the client fails there, its error is the outcome;
  otherwise the call fails with the input error of \<open>createTx\<close>. In both cases the
  creation is the only call made: no tag is added, nothing is signed, nothing is submitted.
\<close>

theorem interactWrite_falsy_input:
  assumes "\<not> truthy input"
  shows "interactWrite E wallet cid input tags target qty =
           ((case env_createTransaction E (tx_options_of E target qty) (Some wallet) of
               Inl e \<Rightarrow> Inl (External e)
             | Inr t \<Rightarrow> Inl (InvalidInputError
                            (''Input should be a truthy value: '' @ env_stringify E input))),
            [EvCreateTransaction (tx_options_of E target qty) (Some wallet)])"
  unfolding interactWrite_def createTx_falsy [OF assms]
  by (simp add: io_bind_def split: sum.splits)

theorem interactWrite_falsy_input_witness:
  "\<not> truthy JNull \<and>
   interactWrite (stub_env stub_ledger 200) (JWK ''k'') ''inline'' JNull [(''X'', ''1'')] ''t'' ''5'' =
     (Inl (InvalidInputError ''Input should be a truthy value: null''),
      [EvCreateTransaction
         \<lparr>opt_data = Some ''1947'', opt_target = Some ''t'', opt_quantity = Some ''5''\<rparr>
         (Some (JWK ''k''))])"
proof -
  have f: "\<not> truthy JNull" by simp
  have o: "tx_options_of (stub_env stub_ledger 200) ''t'' ''5'' =
      \<lparr>opt_data = Some ''1947'', opt_target = Some ''t'', opt_quantity = Some ''5''\<rparr>"
    by code_simp
  show ?thesis
    using interactWrite_falsy_input [OF f, of "stub_env stub_ledger 200" "JWK ''k''"
        "''inline''" "[(''X'', ''1'')]" "''t''" "''5''"]
    unfolding o
    by (simp add: stub_env_def stub_createTransaction_def)
qed

text \<open>
  C2 as stated fails: with input \<^verbatim>\<open>null\<close> the write flow ends in the input error, and
  by then the ledger client has been asked to create a transaction.
\<close>

theorem interactWrite_constructs_before_validation:
  "fst (interactWrite (stub_env stub_ledger 200) (JWK ''k'') ''inline'' JNull [] [] [])
     = Inl (InvalidInputError ''Input should be a truthy value: null'')
   \<and> filter is_createTransaction
       (snd (interactWrite (stub_env stub_ledger 200) (JWK ''k'') ''inline'' JNull [] [] []))
     = [EvCreateTransaction
          \<lparr>opt_data = Some ''1947'', opt_target = None, opt_quantity = None\<rparr>
          (Some (JWK ''k''))]"
  by code_simp

text \<open>
  C6 (as amended). When the builder has produced the transaction, the outcome of the write
  flow is decided by the submission alone: an answer with status 200 gives the
  transaction's id; an answer with any other status gives the null sentinel (\<open>None\<close>),
  without throwing; a submission that itself throws makes the flow throw that error.
\<close>

theorem interactWrite_result:
  assumes "fst (createTx E (Some wallet) cid input tags target qty) = Inr tx"
  shows "fst (interactWrite E wallet cid input tags target qty) =
           (case env_post E tx of
              Inl e \<Rightarrow> Inl (External e)
            | Inr status \<Rightarrow> if status = 200 then Inr (Some (tx_id tx)) else Inr None)"
  using assms
  by (simp add: interactWrite_def io_bind_Inr fst_io_bind fst_io_call io_return_def
        split: sum.splits)

theorem interactWrite_result_witness:
  "fst (interactWrite (stub_env stub_ledger 200) (JWK ''k'') ''inline'' (JStr ''x'') [] [] [])
     = Inr (Some ''id-1947'')
   \<and> fst (interactWrite (stub_env stub_ledger 503) (JWK ''k'') ''inline'' (JStr ''x'') [] [] [])
     = Inr None"
proof -
  let ?tx = "\<lparr>tx_id = ''id-1947'', tx_target = [], tx_quantity = ''0'', tx_reward = ''0'',
       tx_data = ''1947'',
       tx_tags = [(''App-Name'', ''SmartWeaveAction''), (''App-Version'', ''0.3.0''),
                  (''Contract'', ''inline''), (''Input'', [CHR 0x22, CHR ''x'', CHR 0x22])]\<rparr>"
  have c1: "fst (createTx (stub_env stub_ledger 200) (Some (JWK ''k'')) ''inline'' (JStr ''x'') [] [] [])
      = Inr ?tx"
    by code_simp
  have c2: "fst (createTx (stub_env stub_ledger 503) (Some (JWK ''k'')) ''inline'' (JStr ''x'') [] [] [])
      = Inr ?tx"
    by code_simp
  have p1: "env_post (stub_env stub_ledger 200) ?tx = Inr 200"
    by (simp add: stub_env_def)
  have p2: "env_post (stub_env stub_ledger 503) ?tx = Inr 503"
    by (simp add: stub_env_def)
  show ?thesis
    using interactWrite_result [OF c1] interactWrite_result [OF c2] p1 p2 by simp
qed

text \<open>
  C6 as stated fails: a submission that does not report success because the client's call
  throws makes the write flow throw, not return the null sentinel; and a submission that
  answers 202, a success status other than 200, gets the null sentinel, not the id.
\<close>

theorem interactWrite_submission_throws:
  "fst (interactWrite
          ((stub_env stub_ledger 200)\<lparr>env_post := (\<lambda>t. Inl (ExtError ''timeout''))\<rparr>)
          (JWK ''k'') ''inline'' (JStr ''x'') [] [] [])
     = Inl (External (ExtError ''timeout''))
   \<and> fst (interactWrite (stub_env stub_ledger 202) (JWK ''k'') ''inline'' (JStr ''x'') [] [] [])
     = Inr None"
  by code_simp

section \<open>The builder\<close>




lemma createTx_Inr:
  assumes "fst (createTx E w cid input tags target qty) = Inr tx"
  obtains t0 where "env_createTransaction E (tx_options_of E target qty) w = Inr t0"
    and "truthy input"
    and "env_sign E
           (addTag (addTag (addTag (addTag (add_tags t0 tags)
              ''App-Name'' ''SmartWeaveAction'') ''App-Version'' ''0.3.0'')
              ''Contract'' cid) ''Input'' (env_stringify E input)) w = Inr tx"
  using assms
  by (auto simp: createTx_def Let_def fst_io_bind fst_io_call io_throw_def
           split: sum.splits if_splits)







lemma tx_target_add_tags: "tx_target (add_tags t tags) = tx_target t"
proof -
  have "tx_target (foldl (\<lambda>t' tag. addTag t' (fst tag) (snd tag)) t tags) = tx_target t"
    by (induction tags arbitrary: t) (simp_all add: addTag_def)
  then show ?thesis by (simp add: add_tags_def)
qed

lemma tx_quantity_add_tags: "tx_quantity (add_tags t tags) = tx_quantity t"
proof -
  have "tx_quantity (foldl (\<lambda>t' tag. addTag t' (fst tag) (snd tag)) t tags) = tx_quantity t"
    by (induction tags arbitrary: t) (simp_all add: addTag_def)
  then show ?thesis by (simp add: add_tags_def)
qed

lemma createTx_transfer:
  assumes "copies_transfer E"
      and "fst (createTx E w cid input tags target qty) = Inr tx"
  shows "tx_target tx = (case opt_target (tx_options_of E target qty) of
                           None \<Rightarrow> [] | Some x \<Rightarrow> x)"
    and "tx_quantity tx = (case opt_quantity (tx_options_of E target qty) of
                             None \<Rightarrow> ''0'' | Some q \<Rightarrow> q)"
proof -
  from assms(2) obtain t0 where
    c: "env_createTransaction E (tx_options_of E target qty) w = Inr t0"
    and s: "env_sign E
           (addTag (addTag (addTag (addTag (add_tags t0 tags)
              ''App-Name'' ''SmartWeaveAction'') ''App-Version'' ''0.3.0'')
              ''Contract'' cid) ''Input'' (env_stringify E input)) w = Inr tx"
    by (rule createTx_Inr)
  from assms(1) c have
    t0: "tx_target t0 = (case opt_target (tx_options_of E target qty) of
                           None \<Rightarrow> [] | Some x \<Rightarrow> x)"
        "tx_quantity t0 = (case opt_quantity (tx_options_of E target qty) of
                             None \<Rightarrow> ''0'' | Some q \<Rightarrow> q)"
    unfolding copies_transfer_def by blast+
  from assms(1) s have
    "tx_target tx = tx_target (addTag (addTag (addTag (addTag (add_tags t0 tags)
              ''App-Name'' ''SmartWeaveAction'') ''App-Version'' ''0.3.0'')
              ''Contract'' cid) ''Input'' (env_stringify E input))"
    and "tx_quantity tx = tx_quantity (addTag (addTag (addTag (addTag (add_tags t0 tags)
              ''App-Name'' ''SmartWeaveAction'') ''App-Version'' ''0.3.0'')
              ''Contract'' cid) ''Input'' (env_stringify E input))"
    unfolding copies_transfer_def by blast+
  then have "tx_target tx = tx_target t0" and "tx_quantity tx = tx_quantity t0"
    by (simp_all add: addTag_def tx_target_add_tags tx_quantity_add_tags)
  with t0 show "tx_target tx = (case opt_target (tx_options_of E target qty) of
                           None \<Rightarrow> [] | Some x \<Rightarrow> x)"
    and "tx_quantity tx = (case opt_quantity (tx_options_of E target qty) of
                             None \<Rightarrow> ''0'' | Some q \<Rightarrow> q)"
    by simp_all
qed

text \<open>
  C7. The first call of \<open>createTx\<close> hands the options to the ledger client. The target is
  among them exactly when the target string is not empty; the quantity exactly when,
  moreover, the quantity string is not empty and its numeric value is greater than 0. So
  both are attached exactly when the target is not empty and the quantity parses to a
  positive amount. On a client that copies the options, the transaction that \<open>createTx\<close>
  returns shows it: its target is the target string when that is not empty and the
  client's default, the empty target, otherwise; its quantity is the quantity string when
  the target is not empty and the quantity is positive, and the client's default
  \<^verbatim>\<open>0\<close> otherwise.
\<close>

theorem createTx_target_and_quantity:
  "take 1 (snd (createTx E w cid input tags target qty))
     = [EvCreateTransaction (tx_options_of E target qty) w]
   \<and> opt_target (tx_options_of E target qty) = (if target \<noteq> [] then Some target else None)
   \<and> opt_quantity (tx_options_of E target qty)
       = (if target \<noteq> [] \<and> qty \<noteq> [] \<and> gt_zero (env_toNumber E qty) then Some qty else None)
   \<and> ((opt_target (tx_options_of E target qty) \<noteq> None
        \<and> opt_quantity (tx_options_of E target qty) \<noteq> None)
       = (target \<noteq> [] \<and> qty \<noteq> [] \<and> gt_zero (env_toNumber E qty)))
   \<and> (copies_transfer E \<longrightarrow> fst (createTx E w cid input tags target qty) = Inr tx
        \<longrightarrow> tx_target tx = (if target \<noteq> [] then target else [])
          \<and> tx_quantity tx
              = (if target \<noteq> [] \<and> qty \<noteq> [] \<and> gt_zero (env_toNumber E qty) then qty
                 else ''0''))"
proof -
  have ev: "take 1 (snd (createTx E w cid input tags target qty))
     = [EvCreateTransaction (tx_options_of E target qty) w]"
    by (simp add: createTx_def Let_def snd_io_bind snd_io_call split: sum.splits)
  have ot: "opt_target (tx_options_of E target qty) = (if target \<noteq> [] then Some target else None)"
    and oq: "opt_quantity (tx_options_of E target qty)
       = (if target \<noteq> [] \<and> qty \<noteq> [] \<and> gt_zero (env_toNumber E qty) then Some qty else None)"
    by (simp_all add: tx_options_of_def Let_def)
  have "tx_target tx = (if target \<noteq> [] then target else [])
          \<and> tx_quantity tx
              = (if target \<noteq> [] \<and> qty \<noteq> [] \<and> gt_zero (env_toNumber E qty) then qty
                 else ''0'')"
    if "copies_transfer E" and "fst (createTx E w cid input tags target qty) = Inr tx"
    using createTx_transfer [OF that] by (simp add: ot oq)
  with ev ot oq show ?thesis by simp
qed

lemma copies_transfer_stub_env: "copies_transfer (stub_env ledger status)"
  by (auto simp: copies_transfer_def stub_env_def stub_createTransaction_def)

theorem createTx_target_and_quantity_witness:
  "copies_transfer (stub_env stub_ledger 200)
   \<and> map_sum id (\<lambda>t. (tx_target t, tx_quantity t))
       (fst (createTx (stub_env stub_ledger 200) None ''inline'' (JStr ''x'') [] ''t'' ''5''))
     = Inr (''t'', ''5'')
   \<and> map_sum id (\<lambda>t. (tx_target t, tx_quantity t))
       (fst (createTx (stub_env stub_ledger 200) None ''inline'' (JStr ''x'') [] ''t'' ''0''))
     = Inr (''t'', ''0'')
   \<and> map_sum id (\<lambda>t. (tx_target t, tx_quantity t))
       (fst (createTx (stub_env stub_ledger 200) None ''inline'' (JStr ''x'') [] [] ''5''))
     = Inr ([], ''0'')
   \<and> tx_options_of (stub_env stub_ledger 200) ''t'' ''5''
     = \<lparr>opt_data = Some ''1947'', opt_target = Some ''t'', opt_quantity = Some ''5''\<rparr>"
proof -
  let ?E = "stub_env stub_ledger 200"
  let ?tags = "[(''App-Name'', ''SmartWeaveAction''), (''App-Version'', ''0.3.0''),
                (''Contract'', ''inline''), (''Input'', [CHR 0x22, CHR ''x'', CHR 0x22])]"
  let ?t1 = "\<lparr>tx_id = ''id-1947'', tx_target = ''t'', tx_quantity = ''5'', tx_reward = ''0'',
              tx_data = ''1947'', tx_tags = ?tags\<rparr>"
  let ?t2 = "\<lparr>tx_id = ''id-1947'', tx_target = ''t'', tx_quantity = ''0'', tx_reward = ''0'',
              tx_data = ''1947'', tx_tags = ?tags\<rparr>"
  let ?t3 = "\<lparr>tx_id = ''id-1947'', tx_target = [], tx_quantity = ''0'', tx_reward = ''0'',
              tx_data = ''1947'', tx_tags = ?tags\<rparr>"
  have c1: "fst (createTx ?E None ''inline'' (JStr ''x'') [] ''t'' ''5'') = Inr ?t1"
    by code_simp
  have c2: "fst (createTx ?E None ''inline'' (JStr ''x'') [] ''t'' ''0'') = Inr ?t2"
    by code_simp
  have c3: "fst (createTx ?E None ''inline'' (JStr ''x'') [] [] ''5'') = Inr ?t3"
    by code_simp
  have n5: "gt_zero (env_toNumber ?E ''5'')" by code_simp
  have n0: "\<not> gt_zero (env_toNumber ?E ''0'')" by code_simp
  have d: "opt_data (tx_options_of ?E ''t'' ''5'') = Some ''1947''"
    by code_simp
  note t = createTx_target_and_quantity
  from t [of ?E None "''inline''" "JStr ''x''" "[]" "''t''" "''5''" ?t1]
       t [of ?E None "''inline''" "JStr ''x''" "[]" "''t''" "''0''" ?t2]
       t [of ?E None "''inline''" "JStr ''x''" "[]" "[]" "''5''" ?t3]
       copies_transfer_stub_env [of stub_ledger 200] c1 c2 c3 n5 n0 d
  show ?thesis by (simp add: tx_options.equality)
qed

section \<open>The read flow and the custom dry run\<close>

lemma call_execute_simps:
  "fst (call_execute E c i s)
     = (case env_execute E (ci_handler c) (ci_swGlobal c) i s of
          Inl e \<Rightarrow> Inl (External e) | Inr r \<Rightarrow> Inr r)"
  "snd (call_execute E c i s) = [EvExecute (ci_handler c) (ci_swGlobal c) i s]"
  by (simp_all add: call_execute_def fst_io_call snd_io_call)

lemma set_activeTx_Inr:
  "fst (set_activeTx ci atx) = Inr c' \<Longrightarrow>
     \<exists>c. ci = AnyContract c \<and> c' = c\<lparr>ci_swGlobal := (ci_swGlobal c)\<lparr>sw_activeTx := Some atx\<rparr>\<rparr>"
  by (cases ci) (auto simp: set_activeTx_def io_return_def io_throw_def)

lemma snd_set_activeTx: "snd (set_activeTx ci atx) = []"
  by (cases ci) (auto simp: set_activeTx_def io_return_def io_throw_def)

text \<open>
  C8. A value returned by the read flow is the \<^verbatim>\<open>result\<close> field of the execution result
  that the handler invocation produced: the last call of the flow is the execution of the
  handler on the given input, and the value returned is the \<open>res_result\<close> of what that
  execution answered, neither its state nor the whole record.
\<close>

theorem interactRead_returns_result_field:
  assumes "fst (interactRead E w cid input tags target qty) = Inr v"
  shows "\<exists>h g i s r.
           last (snd (interactRead E w cid input tags target qty)) = EvExecute h g i s
         \<and> in_input i = input
         \<and> env_execute E h g i s = Inr r
         \<and> v = res_result r"
  using assms
  unfolding interactRead_def Let_def
  by (auto simp: fst_io_bind snd_io_bind call_execute_simps io_return_def
                 snd_set_activeTx
           split: sum.splits prod.splits option.splits)

theorem interactRead_returns_result_field_witness:
  "fst (interactRead (stub_env stub_ledger 200) None ''inline'' (JStr ''x'') [] [] [])
     = Inr (JStr ''x'')
   \<and> (\<exists>h g i s r.
         last (snd (interactRead (stub_env stub_ledger 200) None ''inline'' (JStr ''x'') [] [] []))
           = EvExecute h g i s
       \<and> in_input i = JStr ''x''
       \<and> env_execute (stub_env stub_ledger 200) h g i s = Inr r
       \<and> JStr ''x'' = res_result r)"
proof -
  have r: "fst (interactRead (stub_env stub_ledger 200) None ''inline'' (JStr ''x'') [] [] [])
     = Inr (JStr ''x'')"
    by code_simp
  from interactRead_returns_result_field [OF r] r show ?thesis by simp
qed












section \<open>The loader\<close>

lemma truthy_getTag:
  "truthy (getTag t n) = (\<exists>v. map_of (tx_tags t) n = Some v \<and> v \<noteq> [])"
  by (simp add: getTag_def split: option.splits)

lemma getTag_Some: "map_of (tx_tags t) n = Some v \<Longrightarrow> getTag t n = JStr v"
  by (simp add: getTag_def)

lemma loadContract_initState:
  assumes "fst (loadContract E cid) = Inr c" and "env_get E (JStr cid) = Inr ctx"
  shows "fst (if truthy (getTag ctx ''Init-State'') then
                io_return (getTag ctx ''Init-State'')
              else if truthy (getTag ctx ''Init-State-TX'') then
                io_bind (io_call (EvGet (getTag ctx ''Init-State-TX''))
                           (env_get E (getTag ctx ''Init-State-TX'')))
                  (\<lambda>stateTX. io_return (JStr (tx_data stateTX)))
              else io_return (JStr (tx_data ctx))) = Inr (ci_initState c)"
  using assms
  unfolding loadContract_def Let_def
  by (simp add: fst_io_bind fst_io_call io_return_def
        split: sum.splits prod.splits if_splits) auto

text \<open>
  C4 (as amended). The initial state of a loaded contract follows the priority order, with
  a tag counting as present when the defining transaction has a value for its name that is
  not empty: a non-empty \<^verbatim>\<open>Init-State\<close> value is the initial state; failing that, a
  non-empty \<^verbatim>\<open>Init-State-TX\<close> value names the transaction whose payload is the initial
  state; failing both, the initial state is the defining transaction's own payload.
\<close>

theorem loadContract_initState_priority:
  assumes "fst (loadContract E cid) = Inr c" and "env_get E (JStr cid) = Inr ctx"
  shows "(map_of (tx_tags ctx) ''Init-State'' = Some v \<and> v \<noteq> []
            \<longrightarrow> ci_initState c = JStr v)
       \<and> (map_of (tx_tags ctx) ''Init-State'' \<in> {None, Some []}
            \<and> map_of (tx_tags ctx) ''Init-State-TX'' = Some r \<and> r \<noteq> []
            \<longrightarrow> (\<exists>stx. env_get E (JStr r) = Inr stx \<and> ci_initState c = JStr (tx_data stx)))
       \<and> (map_of (tx_tags ctx) ''Init-State'' \<in> {None, Some []}
            \<and> map_of (tx_tags ctx) ''Init-State-TX'' \<in> {None, Some []}
            \<longrightarrow> ci_initState c = JStr (tx_data ctx))"
proof (intro conjI impI)
  assume "map_of (tx_tags ctx) ''Init-State'' = Some v \<and> v \<noteq> []"
  then have "truthy (getTag ctx ''Init-State'')" and "getTag ctx ''Init-State'' = JStr v"
    by (simp_all add: truthy_getTag getTag_Some)
  with loadContract_initState [OF assms] show "ci_initState c = JStr v"
    by (simp add: io_return_def)
next
  assume a: "map_of (tx_tags ctx) ''Init-State'' \<in> {None, Some []}
            \<and> map_of (tx_tags ctx) ''Init-State-TX'' = Some r \<and> r \<noteq> []"
  then have "\<not> truthy (getTag ctx ''Init-State'')"
    and "truthy (getTag ctx ''Init-State-TX'')"
    and "getTag ctx ''Init-State-TX'' = JStr r"
    by (auto simp: truthy_getTag getTag_Some)
  with loadContract_initState [OF assms]
  show "\<exists>stx. env_get E (JStr r) = Inr stx \<and> ci_initState c = JStr (tx_data stx)"
    by (auto simp: fst_io_bind fst_io_call io_return_def split: sum.splits)
next
  assume "map_of (tx_tags ctx) ''Init-State'' \<in> {None, Some []}
            \<and> map_of (tx_tags ctx) ''Init-State-TX'' \<in> {None, Some []}"
  then have "\<not> truthy (getTag ctx ''Init-State'')"
    and "\<not> truthy (getTag ctx ''Init-State-TX'')"
    by (auto simp: truthy_getTag)
  with loadContract_initState [OF assms] show "ci_initState c = JStr (tx_data ctx)"
    by (simp add: io_return_def)
qed

lemma stub_loads:
  "fst (loadContract (stub_env stub_ledger 200) ''inline'') = Inr stub_contract"
  "fst (loadContract (stub_env stub_ledger 200) ''byref'')
     = Inr (stub_contract
              \<lparr>ci_id := ''byref'', ci_initState := JStr ''referenced'',
               ci_contractTX := mk_tx ''byref'' ''own''
                  [(''Contract-Src'', ''source''), (''Init-State-TX'', ''state'')],
               ci_swGlobal := \<lparr>sw_contract_id = ''byref'', sw_activeTx = None\<rparr>\<rparr>)"
  "fst (loadContract (stub_env stub_ledger 200) ''payload'')
     = Inr (stub_contract
              \<lparr>ci_id := ''payload'', ci_initState := JStr ''own'',
               ci_contractTX := mk_tx ''payload'' ''own'' [(''Contract-Src'', ''source'')],
               ci_swGlobal := \<lparr>sw_contract_id = ''payload'', sw_activeTx = None\<rparr>\<rparr>)"
  by code_simp+

lemma stub_gets:
  "env_get (stub_env stub_ledger 200) (JStr ''inline'')
     = Inr (mk_tx ''inline'' ''own'' [(''Contract-Src'', ''source''), (''Init-State'', ''tagged'')])"
  "env_get (stub_env stub_ledger 200) (JStr ''byref'')
     = Inr (mk_tx ''byref'' ''own'' [(''Contract-Src'', ''source''), (''Init-State-TX'', ''state'')])"
  "env_get (stub_env stub_ledger 200) (JStr ''payload'')
     = Inr (mk_tx ''payload'' ''own'' [(''Contract-Src'', ''source'')])"
  "env_get (stub_env stub_ledger 200) (JStr ''state'') = Inr (mk_tx ''state'' ''referenced'' [])"
  by code_simp+

theorem loadContract_initState_priority_witness:
  "map_sum id ci_initState (fst (loadContract (stub_env stub_ledger 200) ''inline''))
     = Inr (JStr ''tagged'')
   \<and> map_sum id ci_initState (fst (loadContract (stub_env stub_ledger 200) ''byref''))
     = Inr (JStr ''referenced'')
   \<and> map_sum id ci_initState (fst (loadContract (stub_env stub_ledger 200) ''payload''))
     = Inr (JStr ''own'')"
proof -
  note a = loadContract_initState_priority [OF stub_loads(1) stub_gets(1), of "''tagged''" "[]"]
  note b = loadContract_initState_priority [OF stub_loads(2) stub_gets(2), of "[]" "''state''"]
  note c = loadContract_initState_priority [OF stub_loads(3) stub_gets(3), of "[]" "[]"]
  from a have 1: "ci_initState stub_contract = JStr ''tagged''"
    by (simp add: mk_tx_def)
  from b have 2: "ci_initState (stub_contract
              \<lparr>ci_id := ''byref'', ci_initState := JStr ''referenced'',
               ci_contractTX := mk_tx ''byref'' ''own''
                  [(''Contract-Src'', ''source''), (''Init-State-TX'', ''state'')],
               ci_swGlobal := \<lparr>sw_contract_id = ''byref'', sw_activeTx = None\<rparr>\<rparr>)
            = JStr ''referenced''"
    by (simp add: mk_tx_def stub_gets(4))
  from c have 3: "ci_initState (stub_contract
              \<lparr>ci_id := ''payload'', ci_initState := JStr ''own'',
               ci_contractTX := mk_tx ''payload'' ''own'' [(''Contract-Src'', ''source'')],
               ci_swGlobal := \<lparr>sw_contract_id = ''payload'', sw_activeTx = None\<rparr>\<rparr>)
            = JStr ''own''"
    by (simp add: mk_tx_def)
  show ?thesis
    unfolding stub_loads using 1 2 3 by simp
qed

text \<open>
  C4 as stated fails: the defining transaction \<^verbatim>\<open>empty\<close> has an \<^verbatim>\<open>Init-State\<close> tag,
  whose value is the empty string, and the initial state loaded for it is not that value
  but the transaction's own payload.
\<close>

theorem loadContract_empty_Init_State_tag:
  "env_get (stub_env stub_ledger 200) (JStr ''empty'')
     = Inr (mk_tx ''empty'' ''own'' [(''Contract-Src'', ''source''), (''Init-State'', [])])
   \<and> map_sum id ci_initState (fst (loadContract (stub_env stub_ledger 200) ''empty''))
     = Inr (JStr ''own'')"
  by code_simp

section \<open>What the dry runs resolve themselves\<close>

lemma default_obj_defined: "v \<noteq> JUndefined \<Longrightarrow> default_obj v = v"
  by (simp add: default_obj_def)

lemma omitted_events:
  "list_all (\<lambda>ev. ev = EvGetInfo \<or> (\<exists>opts k. ev = EvCreateTransaction opts k)
                   \<or> (\<exists>t k. ev = EvSign t k))
     (snd (interactWriteDryRun E w cid input tags target qty
             JUndefined JUndefined AnyUndefined))"
  "list_all (\<lambda>ev. ev = EvGetInfo)
     (snd (interactWriteDryRunCustom E tx cid input JUndefined JUndefined AnyUndefined))"
proof -
  have "list_all (\<lambda>ev. ev = EvGetInfo \<or> (\<exists>opts k. ev = EvCreateTransaction opts k)
                   \<or> (\<exists>t k. ev = EvSign t k))
       (snd (createTx E (Some w) cid input tags target qty))"
    by (rule events_createTx) simp_all
  then show "list_all (\<lambda>ev. ev = EvGetInfo \<or> (\<exists>opts k. ev = EvCreateTransaction opts k)
                   \<or> (\<exists>t k. ev = EvSign t k))
       (snd (interactWriteDryRun E w cid input tags target qty
               JUndefined JUndefined AnyUndefined))"
    by (simp add: interactWriteDryRun_def Let_def default_obj_def default_contract_def
          snd_io_bind fst_io_bind snd_io_call io_return_def set_activeTx_def io_throw_def
          split: sum.splits prod.splits)
  show "list_all (\<lambda>ev. ev = EvGetInfo)
     (snd (interactWriteDryRunCustom E tx cid input JUndefined JUndefined AnyUndefined))"
    by (simp add: interactWriteDryRunCustom_def Let_def default_obj_def default_contract_def
          snd_io_bind fst_io_bind snd_io_call io_return_def set_activeTx_def io_throw_def
          split: sum.splits prod.splits)
qed

lemma omitted_fails:
  "isl (fst (interactWriteDryRun E w cid input tags target qty
               JUndefined JUndefined AnyUndefined))"
  "isl (fst (interactWriteDryRunCustom E tx cid input JUndefined JUndefined AnyUndefined))"
  by (simp_all add: interactWriteDryRun_def interactWriteDryRunCustom_def Let_def
        default_obj_def default_contract_def fst_io_bind io_return_def set_activeTx_def
        io_throw_def split: sum.splits prod.splits)

lemma filter_empty_from_list_all:
  "list_all Q xs \<Longrightarrow> (\<And>x. Q x \<Longrightarrow> \<not> P x) \<Longrightarrow> filter P xs = []"
  by (auto simp: list_all_iff filter_empty_conv)

text \<open>
  C3, at the calls it is about. A dry run called without a contract record, a state and a
  caller address gets the three defaults \<^verbatim>\<open>{}\<close>, which are truthy, so none of the
  fallbacks after \<^verbatim>\<open>||\<close> is taken: whatever the environment is, the trace of either flow
  holds no call that loads the contract, reads the state or asks the wallet's address, it
  holds no execution of a handler, and the call ends in an error (the assignment to
  \<^verbatim>\<open>contractInfo.swGlobal._activeTx\<close> throws when nothing failed before it).
\<close>

theorem dry_runs_with_omitted_arguments:
  "isl (fst (interactWriteDryRun E w cid input tags target qty
               JUndefined JUndefined AnyUndefined))
   \<and> filter is_resolving
       (snd (interactWriteDryRun E w cid input tags target qty
               JUndefined JUndefined AnyUndefined)) = []
   \<and> filter is_execute
       (snd (interactWriteDryRun E w cid input tags target qty
               JUndefined JUndefined AnyUndefined)) = []
   \<and> isl (fst (interactWriteDryRunCustom E tx cid input JUndefined JUndefined AnyUndefined))
   \<and> filter is_resolving
       (snd (interactWriteDryRunCustom E tx cid input JUndefined JUndefined AnyUndefined)) = []
   \<and> filter is_execute
       (snd (interactWriteDryRunCustom E tx cid input JUndefined JUndefined AnyUndefined)) = []"
proof -
  have "filter is_resolving
       (snd (interactWriteDryRun E w cid input tags target qty
               JUndefined JUndefined AnyUndefined)) = []"
    and "filter is_execute
       (snd (interactWriteDryRun E w cid input tags target qty
               JUndefined JUndefined AnyUndefined)) = []"
    by (rule filter_empty_from_list_all [OF omitted_events(1)]; auto)+
  moreover have "filter is_resolving
       (snd (interactWriteDryRunCustom E tx cid input JUndefined JUndefined AnyUndefined)) = []"
    and "filter is_execute
       (snd (interactWriteDryRunCustom E tx cid input JUndefined JUndefined AnyUndefined)) = []"
    by (rule filter_empty_from_list_all [OF omitted_events(2)]; auto)+
  ultimately show ?thesis
    using omitted_fails by simp
qed

theorem dry_runs_with_omitted_arguments_witness:
  "interactWriteDryRun (stub_env stub_ledger 200) (JWK ''k'') ''inline'' (JStr ''x'') [] [] []
       JUndefined JUndefined AnyUndefined
     = (Inl (TypeError ''Cannot set properties of undefined (setting _activeTx)''),
        [EvGetInfo,
         EvCreateTransaction
           \<lparr>opt_data = Some ''1947'', opt_target = None, opt_quantity = None\<rparr>
           (Some (JWK ''k'')),
         EvSign
           \<lparr>tx_id = [], tx_target = [], tx_quantity = ''0'', tx_reward = ''0'',
            tx_data = ''1947'',
            tx_tags = [(''App-Name'', ''SmartWeaveAction''), (''App-Version'', ''0.3.0''),
                       (''Contract'', ''inline''),
                       (''Input'', [CHR 0x22, CHR ''x'', CHR 0x22])]\<rparr>
           (Some (JWK ''k''))])
   \<and> interactWriteDryRunCustom (stub_env stub_ledger 200) (mk_tx ''t'' [] []) ''inline''
       (JStr ''x'') JUndefined JUndefined AnyUndefined
     = (Inl (TypeError ''Cannot set properties of undefined (setting _activeTx)''),
        [EvGetInfo])
   \<and> filter is_resolving
       (snd (interactWriteDryRun (stub_env stub_ledger 200) (JWK ''k'') ''inline'' (JStr ''x'')
               [] [] [] JUndefined JUndefined AnyUndefined)) = []
   \<and> filter is_execute
       (snd (interactWriteDryRun (stub_env stub_ledger 200) (JWK ''k'') ''inline'' (JStr ''x'')
               [] [] [] JUndefined JUndefined AnyUndefined)) = []"
proof -
  have a: "interactWriteDryRun (stub_env stub_ledger 200) (JWK ''k'') ''inline'' (JStr ''x'') [] [] []
       JUndefined JUndefined AnyUndefined
     = (Inl (TypeError ''Cannot set properties of undefined (setting _activeTx)''),
        [EvGetInfo,
         EvCreateTransaction
           \<lparr>opt_data = Some ''1947'', opt_target = None, opt_quantity = None\<rparr>
           (Some (JWK ''k'')),
         EvSign
           \<lparr>tx_id = [], tx_target = [], tx_quantity = ''0'', tx_reward = ''0'',
            tx_data = ''1947'',
            tx_tags = [(''App-Name'', ''SmartWeaveAction''), (''App-Version'', ''0.3.0''),
                       (''Contract'', ''inline''),
                       (''Input'', [CHR 0x22, CHR ''x'', CHR 0x22])]\<rparr>
           (Some (JWK ''k''))])"
    by code_simp
  have b: "interactWriteDryRunCustom (stub_env stub_ledger 200) (mk_tx ''t'' [] []) ''inline''
       (JStr ''x'') JUndefined JUndefined AnyUndefined
     = (Inl (TypeError ''Cannot set properties of undefined (setting _activeTx)''),
        [EvGetInfo])"
    by code_simp
  from dry_runs_with_omitted_arguments
         [of "stub_env stub_ledger 200" "JWK ''k''" "''inline''" "JStr ''x''" "[]" "[]" "[]"
             "mk_tx ''t'' [] []"]
  have "filter is_resolving
       (snd (interactWriteDryRun (stub_env stub_ledger 200) (JWK ''k'') ''inline'' (JStr ''x'')
               [] [] [] JUndefined JUndefined AnyUndefined)) = []
   \<and> filter is_execute
       (snd (interactWriteDryRun (stub_env stub_ledger 200) (JWK ''k'') ''inline'' (JStr ''x'')
               [] [] [] JUndefined JUndefined AnyUndefined)) = []"
    by blast
  with a b show ?thesis by blast
qed

text \<open>
  With the three arguments passed as explicit falsy values other than \<^verbatim>\<open>undefined\<close>
  (such as \<^verbatim>\<open>null\<close>) the fallbacks are taken: the contract is loaded, then the state is
  read, then, in the write dry run, the wallet's address is asked; the custom dry run has
  no wallet and keeps the caller argument as it is.
\<close>

lemma dry_run_resolves_falsy_arguments:
  assumes "\<not> truthy myState" and "myState \<noteq> JUndefined"
      and "\<not> truthy fromParam" and "fromParam \<noteq> JUndefined"
      and "fst (loadContract E cid) = Inr c"
      and "env_readContract E cid = Inr st"
      and "env_getInfo E = Inr (height, current)"
  shows "(env_getAddress E w = Inr a
            \<longrightarrow> fst (createTx E (Some w) cid input tags target qty) = Inr tx
            \<longrightarrow> snd (interactWriteDryRun E w cid input tags target qty myState fromParam AnyNull)
                  = snd (loadContract E cid)
                    @ [EvReadContract cid, EvGetAddress w, EvGetInfo]
                    @ snd (createTx E (Some w) cid input tags target qty)
                    @ [EvExecute (ci_handler c)
                         ((ci_swGlobal c)\<lparr>sw_activeTx :=
                            Some (dummyActiveTx tx (JStr a) height current)\<rparr>)
                         \<lparr>in_input = input, in_caller = JStr a\<rparr> st])
       \<and> snd (interactWriteDryRunCustom E tx' cid input myState fromParam AnyNull)
           = snd (loadContract E cid)
             @ [EvReadContract cid, EvGetInfo,
                EvExecute (ci_handler c)
                  ((ci_swGlobal c)\<lparr>sw_activeTx :=
                     Some (dummyActiveTx tx' fromParam height current)\<rparr>)
                  \<lparr>in_input = input, in_caller = fromParam\<rparr> st]"
proof (intro conjI impI)
  assume "env_getAddress E w = Inr a"
    and "fst (createTx E (Some w) cid input tags target qty) = Inr tx"
  with assms
  show "snd (interactWriteDryRun E w cid input tags target qty myState fromParam AnyNull)
                  = snd (loadContract E cid)
                    @ [EvReadContract cid, EvGetAddress w, EvGetInfo]
                    @ snd (createTx E (Some w) cid input tags target qty)
                    @ [EvExecute (ci_handler c)
                         ((ci_swGlobal c)\<lparr>sw_activeTx :=
                            Some (dummyActiveTx tx (JStr a) height current)\<rparr>)
                         \<lparr>in_input = input, in_caller = JStr a\<rparr> st]"
    by (simp add: interactWriteDryRun_def Let_def default_obj_defined default_contract_def
          snd_io_bind fst_io_bind io_call_Inr io_return_def set_activeTx_def
          call_execute_simps)
next
  from assms
  show "snd (interactWriteDryRunCustom E tx' cid input myState fromParam AnyNull)
           = snd (loadContract E cid)
             @ [EvReadContract cid, EvGetInfo,
                EvExecute (ci_handler c)
                  ((ci_swGlobal c)\<lparr>sw_activeTx :=
                     Some (dummyActiveTx tx' fromParam height current)\<rparr>)
                  \<lparr>in_input = input, in_caller = fromParam\<rparr> st]"
    by (simp add: interactWriteDryRunCustom_def Let_def default_obj_defined
          default_contract_def snd_io_bind fst_io_bind io_call_Inr io_return_def
          set_activeTx_def call_execute_simps)
qed

lemma custom_dry_run_keeps_null_caller:
  "filter is_getAddress
     (snd (interactWriteDryRunCustom (stub_env stub_ledger 200) (mk_tx ''t'' [] []) ''inline''
             (JStr ''x'') JNull JNull AnyNull)) = []
   \<and> filter is_execute
       (snd (interactWriteDryRunCustom (stub_env stub_ledger 200) (mk_tx ''t'' [] []) ''inline''
               (JStr ''x'') JNull JNull AnyNull))
     = [EvExecute (ci_handler stub_contract)
          \<lparr>sw_contract_id = ''inline'',
           sw_activeTx = Some (dummyActiveTx (mk_tx ''t'' [] []) JNull 7 ''block'')\<rparr>
          \<lparr>in_input = JStr ''x'', in_caller = JNull\<rparr>
          (JObj [(''counter'', JNum (Finite 0))])]"
  by code_simp

section \<open>The assertion helper of the wrapper\<close>

text \<open>\<^verbatim>\<open>ContractAssert(cond, message)\<close> throws exactly when \<open>cond\<close> is falsy, and what it
  throws is a \<^verbatim>\<open>ContractError\<close>.\<close>

lemma ContractAssert_throws_iff:
  "(\<exists>e. ContractAssert toString cond message = Inl e) = (\<not> truthy cond)"
  "(ContractAssert toString cond message = Inr ()) = truthy cond"
  by (simp_all add: ContractAssert_def)

text \<open>The fuel of \<open>match_spaces\<close> is enough: what it leaves starts with no white space.\<close>

lemma match_lit_length: "match_lit e s = Some r \<Longrightarrow> length s = length e + length r"
  by (induction e s rule: match_lit.induct) (auto split: if_splits)

lemma strip_first_shorter:
  "strip_first es s = Some r \<Longrightarrow> [] \<notin> set es \<Longrightarrow> length r < length s"
  by (induction es) (auto split: option.splits dest: match_lit_length)

lemma strip_space_shorter: "strip_space s = Some r \<Longrightarrow> length r < length s"
  unfolding strip_space_def
  by (erule strip_first_shorter) (simp add: space_encodings_def)

lemma strip_spaces_all: "length s \<le> n \<Longrightarrow> strip_space (strip_spaces n s) = None"
proof (induction n arbitrary: s)
  case 0
  then show ?case by (auto simp: strip_space_def space_encodings_def)
next
  case (Suc n)
  show ?case
  proof (cases "strip_space s")
    case None
    then show ?thesis by simp
  next
    case (Some r)
    with Suc.prems have "length r \<le> n" by (auto dest: strip_space_shorter)
    with Some Suc.IH show ?thesis by simp
  qed
qed

lemma match_spaces_all: "match_spaces s = Some r \<Longrightarrow> strip_space r = None"
  by (auto simp: match_spaces_def strip_spaces_all split: option.splits)


end
